theory Spec2Isabelle
  imports Main "HOL-Library.Word"
begin

section \<open>The proxy redirect manager of pkg/proxy/proxy.go\<close>

text \<open>
  The Go file keeps two maps, \<open>allocatedPorts\<close> and \<open>redirects\<close>, whose values are
  pointers to the same \<open>Redirect\<close> objects. The model therefore has an explicit store
  (\<open>heap\<close>) from references to \<open>Redirect\<close> records, and both maps hold references.
  Everything outside the file (the random source, the backend factories, the backend's
  \<open>UpdateRules\<close> and \<open>Close\<close>, the connection table) is an oracle of an environment
  record acting on an external state \<open>'e\<close>; every call of an oracle is also appended to a
  trace, so that the number and order of external calls can be stated.
\<close>

subsection \<open>Data\<close>

type_synonym uint16 = "16 word"
type_synonym uint64 = "64 word"

text \<open>Times and durations are counted in nanoseconds, as \<open>time.Duration\<close> is.\<close>
type_synonym time = int

type_synonym ref = nat
type_synonym impl = nat
type_synonym notifier = nat

text \<open>\<open>policy.L7ParserType\<close> is a Go string type.\<close>
type_synonym L7ParserType = string

text \<open>The rule set of a filter (\<open>policy.L7DataMap\<close>), kept as an association list.\<close>
type_synonym L7DataMap = "(string \<times> string) list"

text \<open>
  Modelled from the spec: the two constants of pkg/policy that the switch of
  \<open>CreateOrUpdateRedirect\<close> names (the supported kinds HTTP and Kafka); pkg/policy is
  not among the sources. Only that they are two different strings is used.
\<close>
definition ParserTypeHTTP :: L7ParserType where
  "ParserTypeHTTP = ''http''"

definition ParserTypeKafka :: L7ParserType where
  "ParserTypeKafka = ''kafka''"

text \<open>\<open>portReleaseDelay = time.Duration(5) * time.Minute\<close>\<close>
definition portReleaseDelay :: time where
  "portReleaseDelay = 5 * (60 * 1000000000)"

text \<open>\<open>redirectCreationAttempts = 5\<close>\<close>
definition redirectCreationAttempts :: nat where
  "redirectCreationAttempts = 5"

text \<open>The fields of \<open>policy.L4Filter\<close> that the file reads.\<close>
record L4Filter =
  Port :: int
  Ingress :: bool
  L7Parser :: L7ParserType
  L7RulesPerEp :: L7DataMap

text \<open>\<open>logger.EndpointInfoSource\<close>: only \<open>GetID()\<close> is called by the manager.\<close>
record EndpointInfoSource =
  GetID :: uint64

text \<open>
  The \<open>Redirect\<close> struct, with the fields proxy.go reads and writes. The struct is
  declared in another file of the package; \<open>rid\<close> stands for its field \<open>id\<close>.
\<close>
record Redirect =
  rid :: string
  port :: uint16
  ProxyPort :: uint16
  endpointID :: uint64
  ingress :: bool
  parserType :: L7ParserType
  source :: EndpointInfoSource
  implementation :: "impl option"
  created :: time
  lastUpdated :: time
  rules :: L7DataMap

text \<open>The \<open>Proxy\<close> struct; the maps hold pointers, here references into the store.\<close>
record Proxy =
  stateDir :: string
  rangeMin :: uint16
  rangeMax :: uint16
  allocatedPorts :: "uint16 \<rightharpoonup> ref"
  redirects :: "string \<rightharpoonup> ref"

text \<open>
  Errors. The first four are the \<open>fmt.Errorf\<close> values of the file; \<open>BackendError\<close> is
  an error handed back by a backend; \<open>NilDereference\<close> is the run-time panic of a call
  through a nil pointer or nil interface.
\<close>
datatype error =
    NoAvailableProxyPorts
  | InvalidType L7ParserType L7ParserType
  | UnsupportedL7Parser L7ParserType
  | UnableToFindRedirect string
  | BackendError string
  | NilDereference

text \<open>
  The calls that leave the file, in the order they are made; a call that can fail is
  recorded with the error it returned.
\<close>
datatype event =
    EvOnceInit notifier
  | EvPerm nat
  | EvCreateKafkaRedirect ref uint16 "error option"
  | EvCreateEnvoyRedirect ref uint16 "error option"
  | EvUpdateRules impl "error option"
  | EvClose impl
  | EvCleanupOnRedirectClose uint16

text \<open>
  The goroutine started by \<open>RemoveRedirect\<close>: it sleeps, then cleans the connection
  table, then deletes the port. \<open>Sleeping t\<close> is asleep until time \<open>t\<close>.
\<close>
datatype task_pc = Sleeping time | AtCleanup | AtRelease

record task =
  t_redirect :: ref
  t_pc :: task_pc

text \<open>
  The external collaborators. \<open>rand_Perm n\<close> is \<open>portRandomizer.Perm(n)\<close>; the factories
  return Go's pair of an implementation and an error.
\<close>
record 'e Env =
  rand_Perm :: "nat \<Rightarrow> 'e \<Rightarrow> nat list \<times> 'e"
  createKafkaRedirect :: "Redirect \<Rightarrow> 'e \<Rightarrow> (impl option \<times> error option) \<times> 'e"
  createEnvoyRedirect :: "Redirect \<Rightarrow> string \<Rightarrow> 'e \<Rightarrow> (impl option \<times> error option) \<times> 'e"
  impl_UpdateRules :: "impl \<Rightarrow> Redirect \<Rightarrow> 'e \<Rightarrow> error option \<times> 'e"
  impl_Close :: "impl \<Rightarrow> 'e \<Rightarrow> 'e"
  proxymap_CleanupOnRedirectClose :: "uint16 \<Rightarrow> 'e \<Rightarrow> 'e"

text \<open>
  The whole state: the one \<open>Proxy\<close>, the store of \<open>Redirect\<close> objects with its
  allocation counter, the package-level \<open>gcOnce\<close>, the external state, the trace, the
  clock and the goroutines waiting to release a port.
\<close>
record 'e world =
  proxy :: Proxy
  heap :: "ref \<rightharpoonup> Redirect"
  nextRef :: ref
  gcOnce :: bool
  ext :: 'e
  trace :: "event list"
  now :: time
  tasks :: "task list"

subsection \<open>Operations\<close>

text \<open>\<open>StartProxySupport\<close>: a manager with the given range and two empty maps.\<close>
definition StartProxySupport :: "uint16 \<Rightarrow> uint16 \<Rightarrow> string \<Rightarrow> 'e \<Rightarrow> time \<Rightarrow> 'e world" where
  "StartProxySupport minPort maxPort dir e t =
     \<lparr> proxy = \<lparr> stateDir = dir, rangeMin = minPort, rangeMax = maxPort,
                 allocatedPorts = Map.empty, redirects = Map.empty \<rparr>,
       heap = Map.empty, nextRef = 0, gcOnce = False, ext = e, trace = [], now = t,
       tasks = [] \<rparr>"

text \<open>The loop of \<open>allocatePort\<close> over the permutation: the first offset whose port is free.\<close>
fun scanPorts :: "(uint16 \<rightharpoonup> ref) \<Rightarrow> uint16 \<Rightarrow> nat list \<Rightarrow> error + uint16" where
  "scanPorts ports rmin [] = Inl NoAvailableProxyPorts"
| "scanPorts ports rmin (r # rs) =
     (let resPort = of_nat r + rmin
      in if ports resPort = None then Inr resPort else scanPorts ports rmin rs)"

text \<open>
  \<open>allocatePort\<close>. The argument of \<open>Perm\<close> is \<open>int(p.rangeMax - p.rangeMin + 1)\<close>, computed
  in \<open>uint16\<close> (so it wraps) before the conversion.
\<close>
definition allocatePort :: "'e Env \<Rightarrow> 'e world \<Rightarrow> (error + uint16) \<times> 'e world" where
  "allocatePort env w =
     (let p = proxy w;
          n = unat (rangeMax p - rangeMin p + 1);
          (perm, e') = rand_Perm env n (ext w)
      in (scanPorts (allocatedPorts p) (rangeMin p) perm,
          w\<lparr>ext := e', trace := trace w @ [EvPerm n]\<rparr>))"

text \<open>
  Modelled from the spec: \<open>newRedirect\<close> is in another file of the package. It builds
  the record from its three arguments and stamps both timestamps; the other fields have
  Go's zero values.
\<close>
definition newRedirect :: "uint16 \<Rightarrow> EndpointInfoSource \<Rightarrow> string \<Rightarrow> time \<Rightarrow> Redirect" where
  "newRedirect p src ident t =
     \<lparr> rid = ident, port = p, ProxyPort = 0, endpointID = 0, ingress = False,
       parserType = [], source = src, implementation = None, created = t,
       lastUpdated = t, rules = [] \<rparr>"

text \<open>
  Modelled from the spec: \<open>updateRules\<close> is in another file of the package. The rule
  set is replaced wholesale by the filter's.
\<close>
definition updateRules :: "L4Filter \<Rightarrow> Redirect \<Rightarrow> Redirect" where
  "updateRules l4 r = r\<lparr>rules := L7RulesPerEp l4\<rparr>"

text \<open>\<open>gcOnce.Do(...)\<close>: the body runs when the flag is not yet set.\<close>
definition gcOnce_Do :: "notifier \<Rightarrow> 'e world \<Rightarrow> 'e world" where
  "gcOnce_Do nf w =
     (if gcOnce w then w else w\<lparr>gcOnce := True, trace := trace w @ [EvOnceInit nf]\<rparr>)"

text \<open>
  The update path (the body of \<open>if r, ok := p.redirects[id]; ok\<close>). A reference with no
  object, or a redirect with a nil implementation, is the run-time panic.
\<close>
definition updateRedirect :: "'e Env \<Rightarrow> L4Filter \<Rightarrow> ref \<Rightarrow> 'e world \<Rightarrow> (error + ref) \<times> 'e world" where
  "updateRedirect env l4 r w =
     (case heap w r of
        None \<Rightarrow> (Inl NilDereference, w)
      | Some rd \<Rightarrow>
          if parserType rd \<noteq> L7Parser l4
          then (Inl (InvalidType (L7Parser l4) (parserType rd)), w)
          else
            let rd1 = updateRules l4 rd;
                w1 = w\<lparr>heap := (heap w)(r \<mapsto> rd1)\<rparr>
            in (case implementation rd1 of
                  None \<Rightarrow> (Inl NilDereference, w1)
                | Some im \<Rightarrow>
                    (case impl_UpdateRules env im rd1 (ext w1) of
                       (Some err, e') \<Rightarrow>
                         (Inl err,
                          w1\<lparr>ext := e', trace := trace w1 @ [EvUpdateRules im (Some err)]\<rparr>)
                     | (None, e') \<Rightarrow>
                         (Inr r, w1\<lparr>ext := e', trace := trace w1 @ [EvUpdateRules im None],
                                    heap := (heap w1)(r \<mapsto> rd1\<lparr>lastUpdated := now w1\<rparr>)\<rparr>))))"

text \<open>
  The \<open>switch l4.L7Parser\<close> of the create loop. \<open>None\<close> is the default branch (the
  function returns); otherwise the factory's implementation is stored in the redirect,
  error or not, and the error is handed on.
\<close>
definition createImplementation ::
  "'e Env \<Rightarrow> L4Filter \<Rightarrow> ref \<Rightarrow> Redirect \<Rightarrow> 'e world \<Rightarrow> (error option \<times> 'e world) option" where
  "createImplementation env l4 redir rd w =
     (if L7Parser l4 = ParserTypeKafka then
        (case createKafkaRedirect env rd (ext w) of
           ((im, err), e') \<Rightarrow>
             Some (err, w\<lparr>heap := (heap w)(redir \<mapsto> rd\<lparr>implementation := im\<rparr>), ext := e',
                           trace := trace w @ [EvCreateKafkaRedirect redir (ProxyPort rd) err]\<rparr>))
      else if L7Parser l4 = ParserTypeHTTP then
        (case createEnvoyRedirect env rd (stateDir (proxy w)) (ext w) of
           ((im, err), e') \<Rightarrow>
             Some (err, w\<lparr>heap := (heap w)(redir \<mapsto> rd\<lparr>implementation := im\<rparr>), ext := e',
                           trace := trace w @ [EvCreateEnvoyRedirect redir (ProxyPort rd) err]\<rparr>))
      else None)"

text \<open>
  One iteration of the loop \<open>retryCreatePort\<close>, up to its second \<open>switch\<close>: the
  iteration either leaves the function (\<open>Returned\<close>: a \<open>return\<close>, or the \<open>break\<close> after
  the redirect has been entered in both maps), or it ends with a backend error that the
  second \<open>switch\<close> looks at (\<open>Failed\<close>). \<open>redir\<close> is the pointer to the new redirect;
  it always has its object, which \<open>CreateOrUpdateRedirect\<close> has just allocated, so the
  branch for a reference without one is never taken from there.
\<close>
datatype 'e attempt =
    Returned "(error + ref) \<times> 'e world"
  | Failed error "'e world"

definition createAttempt ::
  "'e Env \<Rightarrow> L4Filter \<Rightarrow> string \<Rightarrow> ref \<Rightarrow> 'e world \<Rightarrow> 'e attempt" where
  "createAttempt env l4 ident redir w =
     (case allocatePort env w of
        (Inl err, w1) \<Rightarrow> Returned (Inl err, w1)
      | (Inr to, w1) \<Rightarrow>
          (case heap w1 redir of
             None \<Rightarrow> Returned (Inl NilDereference, w1)
           | Some rd0 \<Rightarrow>
               let rd = rd0\<lparr>ProxyPort := to\<rparr>;
                   w2 = w1\<lparr>heap := (heap w1)(redir \<mapsto> rd)\<rparr>
               in (case createImplementation env l4 redir rd w2 of
                     None \<Rightarrow> Returned (Inl (UnsupportedL7Parser (L7Parser l4)), w2)
                   | Some (None, w3) \<Rightarrow>
                       Returned (Inr redir,
                         w3\<lparr>proxy := (proxy w3)
                              \<lparr>allocatedPorts := (allocatedPorts (proxy w3))(to \<mapsto> redir),
                               redirects := (redirects (proxy w3))(ident \<mapsto> redir)\<rparr>\<rparr>)
                   | Some (Some err, w3) \<Rightarrow> Failed err w3)))"

text \<open>
  The loop \<open>for nRetry := 0; ; nRetry++\<close>, from the iteration \<open>nRetry\<close> on. After a
  backend error the second \<open>switch\<close> returns it when \<open>nRetry >= redirectCreationAttempts\<close>
  and goes round again otherwise.
\<close>
function retryCreatePort ::
  "'e Env \<Rightarrow> L4Filter \<Rightarrow> string \<Rightarrow> ref \<Rightarrow> nat \<Rightarrow> 'e world \<Rightarrow> (error + ref) \<times> 'e world" where
  "retryCreatePort env l4 ident redir nRetry w =
     (case createAttempt env l4 ident redir w of
        Returned res \<Rightarrow> res
      | Failed err w3 \<Rightarrow>
          if nRetry \<ge> redirectCreationAttempts then (Inl err, w3)
          else retryCreatePort env l4 ident redir (nRetry + 1) w3)"
  by pat_completeness auto
termination
  by (relation "measure (\<lambda>(env, l4, ident, redir, nRetry, w). Suc redirectCreationAttempts - nRetry)")
     auto

declare retryCreatePort.simps [simp del]

text \<open>\<open>CreateOrUpdateRedirect\<close>. The completion handle \<open>wg\<close> is only handed on to the
  backends and is left out.\<close>
definition CreateOrUpdateRedirect ::
  "'e Env \<Rightarrow> L4Filter \<Rightarrow> string \<Rightarrow> EndpointInfoSource \<Rightarrow> notifier \<Rightarrow> 'e world
     \<Rightarrow> (error + ref) \<times> 'e world" where
  "CreateOrUpdateRedirect env l4 ident src nf w0 =
     (let w = gcOnce_Do nf w0
      in case redirects (proxy w) ident of
           Some r \<Rightarrow> updateRedirect env l4 r w
         | None \<Rightarrow>
             let redir = nextRef w;
                 rd = (newRedirect (word_of_int (Port l4)) src ident (now w))
                        \<lparr>endpointID := GetID src, ingress := Ingress l4,
                         parserType := L7Parser l4\<rparr>;
                 w1 = w\<lparr>heap := (heap w)(redir \<mapsto> updateRules l4 rd), nextRef := Suc redir\<rparr>
             in retryCreatePort env l4 ident redir 0 w1)"

text \<open>
  \<open>RemoveRedirect\<close>: the backend is closed, the identifier leaves \<open>redirects\<close>, and the
  goroutine that will release the port is started; it is taken to fall asleep at once,
  which is the earliest it can.
\<close>
definition RemoveRedirect :: "'e Env \<Rightarrow> string \<Rightarrow> 'e world \<Rightarrow> error option \<times> 'e world" where
  "RemoveRedirect env ident w =
     (case redirects (proxy w) ident of
        None \<Rightarrow> (Some (UnableToFindRedirect ident), w)
      | Some r \<Rightarrow>
          (case heap w r of
             None \<Rightarrow> (Some NilDereference, w)
           | Some rd \<Rightarrow>
               (case implementation rd of
                  None \<Rightarrow> (Some NilDereference, w)
                | Some im \<Rightarrow>
                    (None,
                     w\<lparr>ext := impl_Close env im (ext w),
                       trace := trace w @ [EvClose im],
                       proxy := (proxy w)\<lparr>redirects := (redirects (proxy w))(ident := None)\<rparr>,
                       tasks := tasks w @
                         [\<lparr>t_redirect = r, t_pc = Sleeping (now w + portReleaseDelay)\<rparr>]\<rparr>))))"

text \<open>
  One step of the goroutine of \<open>RemoveRedirect\<close>. \<open>None\<close>: it cannot move (still
  asleep, or a dangling pointer). Otherwise the task that remains, if any, and the new
  state. \<open>r.ProxyPort\<close> is read when the step runs, as in the closure.
\<close>
definition runTask :: "'e Env \<Rightarrow> task \<Rightarrow> 'e world \<Rightarrow> (task option \<times> 'e world) option" where
  "runTask env t w =
     (case t_pc t of
        Sleeping wake \<Rightarrow>
          if now w < wake then None else Some (Some (t\<lparr>t_pc := AtCleanup\<rparr>), w)
      | AtCleanup \<Rightarrow>
          (case heap w (t_redirect t) of
             None \<Rightarrow> None
           | Some rd \<Rightarrow>
               Some (Some (t\<lparr>t_pc := AtRelease\<rparr>),
                     w\<lparr>ext := proxymap_CleanupOnRedirectClose env (ProxyPort rd) (ext w),
                       trace := trace w @ [EvCleanupOnRedirectClose (ProxyPort rd)]\<rparr>))
      | AtRelease \<Rightarrow>
          (case heap w (t_redirect t) of
             None \<Rightarrow> None
           | Some rd \<Rightarrow>
               Some (None,
                     w\<lparr>proxy := (proxy w)
                         \<lparr>allocatedPorts := (allocatedPorts (proxy w))(ProxyPort rd := None)\<rparr>\<rparr>)))"

text \<open>The scheduler lets the \<open>i\<close>-th waiting goroutine take one step, if it can.\<close>
definition schedule :: "'e Env \<Rightarrow> nat \<Rightarrow> 'e world \<Rightarrow> 'e world" where
  "schedule env i w =
     (if i < length (tasks w) then
        (case runTask env (tasks w ! i) w of
           None \<Rightarrow> w
         | Some (None, w') \<Rightarrow> w'\<lparr>tasks := take i (tasks w') @ drop (Suc i) (tasks w')\<rparr>
         | Some (Some t', w') \<Rightarrow> w'\<lparr>tasks := (tasks w')[i := t']\<rparr>)
      else w)"

subsection \<open>What the statements below speak about\<close>

text \<open>The backend-construction attempts in a trace, and the ports they were made on.\<close>
fun createdPort :: "event \<Rightarrow> uint16 option" where
  "createdPort (EvCreateKafkaRedirect r p err) = Some p"
| "createdPort (EvCreateEnvoyRedirect r p err) = Some p"
| "createdPort ev = None"

definition createdPorts :: "event list \<Rightarrow> uint16 list" where
  "createdPorts tr = List.map_filter createdPort tr"

definition createAttempts :: "event list \<Rightarrow> nat" where
  "createAttempts tr = length (createdPorts tr)"

text \<open>The error of a backend-construction attempt.\<close>
fun createError :: "event \<Rightarrow> error option" where
  "createError (EvCreateKafkaRedirect r p err) = err"
| "createError (EvCreateEnvoyRedirect r p err) = err"
| "createError ev = None"

text \<open>The calls of \<open>allocatePort\<close> in a trace: one per iteration of the create loop.\<close>
fun isPerm :: "event \<Rightarrow> bool" where
  "isPerm (EvPerm n) = True"
| "isPerm ev = False"

definition allocations :: "event list \<Rightarrow> nat" where
  "allocations tr = length (filter isPerm tr)"

text \<open>The contract of \<open>rand.Perm(n)\<close>: a permutation of the integers \<open>[0,n)\<close>.\<close>
definition perm_contract :: "'e Env \<Rightarrow> bool" where
  "perm_contract env =
     (\<forall>n e. distinct (fst (rand_Perm env n e)) \<and> set (fst (rand_Perm env n e)) = {0..<n})"

text \<open>An environment in which backend construction fails whenever it is tried.\<close>
definition create_always_fails :: "'e Env \<Rightarrow> bool" where
  "create_always_fails env =
     (\<forall>rd dir e. snd (fst (createKafkaRedirect env rd e)) \<noteq> None \<and>
                 snd (fst (createEnvoyRedirect env rd dir e)) \<noteq> None)"





text \<open>
  The states the manager reaches from \<open>w0\<close>: by calls of its two operations with any
  arguments, by the clock moving on, and by a waiting goroutine taking a step.
\<close>
inductive run :: "'e Env \<Rightarrow> 'e world \<Rightarrow> 'e world \<Rightarrow> bool"
  for env :: "'e Env" and w0 :: "'e world" where
  run_start: "run env w0 w0"
| run_create: "run env w0 w \<Longrightarrow> run env w0 (snd (CreateOrUpdateRedirect env l4 ident src nf w))"
| run_remove: "run env w0 w \<Longrightarrow> run env w0 (snd (RemoveRedirect env ident w))"
| run_tick: "run env w0 w \<Longrightarrow> 0 \<le> d \<Longrightarrow> run env w0 (w\<lparr>now := now w + d\<rparr>)"
| run_task: "run env w0 w \<Longrightarrow> run env w0 (schedule env i w)"

text \<open>
  What an iteration of the create loop leaves alone: the allocation counter, the waiting
  goroutines, the clock and every object but the new redirect, which stays in the store.
\<close>
definition frame_of :: "ref \<Rightarrow> 'e world \<Rightarrow> 'e world \<Rightarrow> bool" where
  "frame_of redir w w' =
     (nextRef w' = nextRef w \<and> tasks w' = tasks w \<and> now w' = now w \<and>
      (\<forall>r. r \<noteq> redir \<longrightarrow> heap w' r = heap w r) \<and>
      (heap w redir \<noteq> None \<longrightarrow> heap w' redir \<noteq> None))"

text \<open>
  The state at the label \<open>retryCreatePort\<close>: the new redirect, filled in from the
  filter, is in the store under a fresh reference (lines 183 to 187).
\<close>
definition createStart :: "L4Filter \<Rightarrow> string \<Rightarrow> EndpointInfoSource \<Rightarrow> 'e world \<Rightarrow> 'e world" where
  "createStart l4 ident src w =
     w\<lparr>heap := (heap w)(nextRef w \<mapsto>
          updateRules l4
            ((newRedirect (word_of_int (Port l4)) src ident (now w))
               \<lparr>endpointID := GetID src, ingress := Ingress l4, parserType := L7Parser l4\<rparr>)),
       nextRef := Suc (nextRef w)\<rparr>"


text \<open>
  What the create loop can do to a state: besides the frame above, the trace only grows,
  and an entry of \<open>allocatedPorts\<close> changes only from free to the new redirect.
\<close>
definition grows :: "ref \<Rightarrow> 'e world \<Rightarrow> 'e world \<Rightarrow> bool" where
  "grows redir w w' =
     (frame_of redir w w' \<and> (\<exists>s. trace w' = trace w @ s) \<and>
      (\<forall>p. allocatedPorts (proxy w') p = allocatedPorts (proxy w) p \<or>
           allocatedPorts (proxy w) p = None \<and> allocatedPorts (proxy w') p = Some redir))"


subsection \<open>A concrete environment and concrete inputs\<close>

text \<open>
  A deterministic environment for the examples: the external state counts the calls, the
  permutation is the identity rotated by that count, and the two flags say whether
  backend construction and \<open>UpdateRules\<close> succeed.
\<close>
definition stubEnv :: "bool \<Rightarrow> bool \<Rightarrow> nat Env" where
  "stubEnv createOk updateOk =
     \<lparr> rand_Perm = (\<lambda>n e. (rotate e [0..<n], Suc e)),
       createKafkaRedirect = (\<lambda>rd e.
         (if createOk then (Some e, None)
          else (None, Some (BackendError (replicate e CHR ''k''))), Suc e)),
       createEnvoyRedirect = (\<lambda>rd dir e.
         (if createOk then (Some e, None)
          else (None, Some (BackendError (replicate e CHR ''h''))), Suc e)),
       impl_UpdateRules = (\<lambda>im rd e.
         (if updateOk then None else Some (BackendError ''rejected''), Suc e)),
       impl_Close = (\<lambda>im e. Suc e),
       proxymap_CleanupOnRedirectClose = (\<lambda>p e. Suc e) \<rparr>"

definition httpFilter :: L4Filter where
  "httpFilter = \<lparr> Port = 80, Ingress = False, L7Parser = ParserTypeHTTP,
                  L7RulesPerEp = [(''any'', ''GET /public'')] \<rparr>"

definition httpFilter2 :: L4Filter where
  "httpFilter2 = \<lparr> Port = 80, Ingress = False, L7Parser = ParserTypeHTTP,
                   L7RulesPerEp = [(''any'', ''GET /private'')] \<rparr>"

definition kafkaFilter :: L4Filter where
  "kafkaFilter = \<lparr> Port = 9092, Ingress = False, L7Parser = ParserTypeKafka,
                   L7RulesPerEp = [(''any'', ''produce topic1'')] \<rparr>"

definition otherFilter :: L4Filter where
  "otherFilter = \<lparr> Port = 53, Ingress = False, L7Parser = ''dns'', L7RulesPerEp = [] \<rparr>"

definition src0 :: EndpointInfoSource where
  "src0 = \<lparr> GetID = 7 \<rparr>"

text \<open>A fresh manager over the ports 10000 to 10002, and one over the single port 10000.\<close>
definition world3 :: "nat world" where
  "world3 = StartProxySupport 10000 10002 ''/var/run/cilium'' 0 1000"

definition world1 :: "nat world" where
  "world1 = StartProxySupport 10000 10000 ''/var/run/cilium'' 0 1000"

text \<open>The same managers after \<open>ep1-egress\<close> has been created (the backend succeeds).\<close>
definition world3_ep1 :: "nat world" where
  "world3_ep1 =
     snd (CreateOrUpdateRedirect (stubEnv True True) httpFilter ''ep1-egress'' src0 1 world3)"

definition world1_ep1 :: "nat world" where
  "world1_ep1 =
     snd (CreateOrUpdateRedirect (stubEnv True True) httpFilter ''ep1-egress'' src0 1 world1)"

text \<open>The redirect that this first call creates.\<close>
definition redirect_ep1 :: Redirect where
  "redirect_ep1 =
     \<lparr> rid = ''ep1-egress'', port = 80, ProxyPort = 10000, endpointID = 7, ingress = False,
       parserType = ''http'', source = src0, implementation = Some 1, created = 1000,
       lastUpdated = 1000, rules = [(''any'', ''GET /public'')] \<rparr>"


subsection \<open>The port allocator\<close>

lemma scanPorts_Inr:
  "scanPorts ports rmin rs = Inr p \<Longrightarrow> ports p = None \<and> (\<exists>r\<in>set rs. p = of_nat r + rmin)"
  by (induction rs) (auto simp: Let_def split: if_splits)

lemma scanPorts_Inl:
  "scanPorts ports rmin rs = Inl e \<Longrightarrow>
     e = NoAvailableProxyPorts \<and> (\<forall>r\<in>set rs. ports (of_nat r + rmin) \<noteq> None)"
  by (induction rs) (auto simp: Let_def split: if_splits)

lemma scanPorts_all_taken:
  "\<forall>r\<in>set rs. ports (of_nat r + rmin) \<noteq> None \<Longrightarrow>
     scanPorts ports rmin rs = Inl NoAvailableProxyPorts"
  by (induction rs) (auto simp: Let_def)

lemma range_size:
  fixes rmin rmax :: uint16
  assumes "rmin \<le> rmax" and "rmax - rmin + 1 \<noteq> 0"
  shows "unat (rmax - rmin + 1) = unat rmax - unat rmin + 1"
  using assms by unat_arith

lemma offset_in_range:
  fixes rmin rmax :: uint16
  assumes le: "rmin \<le> rmax" and r: "r < unat (rmax - rmin + 1)"
  shows "rmin \<le> of_nat r + rmin \<and> of_nat r + rmin \<le> rmax"
proof -
  have nz: "rmax - rmin + 1 \<noteq> 0" using r by (auto simp: unat_eq_0)
  have n: "unat (rmax - rmin + 1) = unat rmax - unat rmin + 1"
    using le nz by (rule range_size)
  have ule: "unat rmin \<le> unat rmax" using le by (simp add: word_le_nat_alt)
  have bound: "unat rmax < 2 ^ 16" using unsigned_less [of rmax, where ?'a = nat] by simp
  have rlt: "r + unat rmin \<le> unat rmax" using r n ule by simp
  have "r < 2 ^ 16" using rlt bound by simp
  then have ur: "unat (of_nat r :: uint16) = r" by (simp add: unat_of_nat)
  have "unat (of_nat r + rmin) = r + unat rmin"
    using rlt bound ur by (simp add: unat_add_lem [THEN iffD1])
  then show ?thesis using rlt by (simp add: word_le_nat_alt)
qed

lemma offset_cover:
  fixes rmin rmax p :: uint16
  assumes "rmin \<le> p" "p \<le> rmax" "rmax - rmin + 1 \<noteq> 0"
  shows "\<exists>r < unat (rmax - rmin + 1). p = of_nat r + rmin"
proof -
  have le: "rmin \<le> rmax" using assms by simp
  have n: "unat (rmax - rmin + 1) = unat rmax - unat rmin + 1"
    using le assms(3) by (rule range_size)
  have "unat (p - rmin) = unat p - unat rmin" using assms(1) by (simp add: unat_sub)
  moreover have "unat p \<le> unat rmax" using assms(2) by (simp add: word_le_nat_alt)
  ultimately have "unat (p - rmin) < unat (rmax - rmin + 1)" using n by simp
  moreover have "p = of_nat (unat (p - rmin)) + rmin" by simp
  ultimately show ?thesis by blast
qed

lemma allocatePort_snd:
  "snd (allocatePort env w) =
     w\<lparr>ext := snd (rand_Perm env (unat (rangeMax (proxy w) - rangeMin (proxy w) + 1)) (ext w)),
       trace := trace w @ [EvPerm (unat (rangeMax (proxy w) - rangeMin (proxy w) + 1))]\<rparr>"
  by (simp add: allocatePort_def Let_def split: prod.splits)

lemma allocatePort_fst:
  "fst (allocatePort env w) =
     scanPorts (allocatedPorts (proxy w)) (rangeMin (proxy w))
       (fst (rand_Perm env (unat (rangeMax (proxy w) - rangeMin (proxy w) + 1)) (ext w)))"
  by (simp add: allocatePort_def Let_def split: prod.splits)

lemma allocatePort_Inl:
  "fst (allocatePort env w) = Inl e \<Longrightarrow> e = NoAvailableProxyPorts"
  by (simp add: allocatePort_fst scanPorts_Inl)

lemma allocatePort_Inr:
  assumes "perm_contract env" and "rangeMin (proxy w) \<le> rangeMax (proxy w)"
    and "fst (allocatePort env w) = Inr p"
  shows "rangeMin (proxy w) \<le> p \<and> p \<le> rangeMax (proxy w) \<and> allocatedPorts (proxy w) p = None"
proof -
  let ?n = "unat (rangeMax (proxy w) - rangeMin (proxy w) + 1)"
  from assms(3) obtain r where free: "allocatedPorts (proxy w) p = None"
    and r: "r \<in> set (fst (rand_Perm env ?n (ext w)))" and p: "p = of_nat r + rangeMin (proxy w)"
    unfolding allocatePort_fst by (blast dest: scanPorts_Inr)
  from r assms(1) have "r < ?n" by (simp add: perm_contract_def)
  with assms(2) p free show ?thesis by (simp add: offset_in_range)
qed

lemma allocatePort_exhausted:
  assumes "perm_contract env" and "rangeMin (proxy w) \<le> rangeMax (proxy w)"
    and "\<forall>p. rangeMin (proxy w) \<le> p \<and> p \<le> rangeMax (proxy w) \<longrightarrow> allocatedPorts (proxy w) p \<noteq> None"
  shows "fst (allocatePort env w) = Inl NoAvailableProxyPorts"
proof (cases "fst (allocatePort env w)")
  case (Inl e)
  then show ?thesis by (simp add: allocatePort_Inl)
next
  case (Inr p)
  with assms show ?thesis by (blast dest: allocatePort_Inr)
qed

lemma allocatePort_free:
  assumes "perm_contract env"
    and "rangeMax (proxy w) - rangeMin (proxy w) + 1 \<noteq> 0"
    and "rangeMin (proxy w) \<le> p" "p \<le> rangeMax (proxy w)" "allocatedPorts (proxy w) p = None"
  shows "\<exists>q. fst (allocatePort env w) = Inr q"
proof (cases "fst (allocatePort env w)")
  case (Inr q)
  then show ?thesis by blast
next
  case (Inl e)
  let ?n = "unat (rangeMax (proxy w) - rangeMin (proxy w) + 1)"
  from assms(2-4) obtain r where "r < ?n" and p: "p = of_nat r + rangeMin (proxy w)"
    by (blast dest: offset_cover)
  with assms(1) have "r \<in> set (fst (rand_Perm env ?n (ext w)))"
    by (simp add: perm_contract_def)
  with Inl have "allocatedPorts (proxy w) (of_nat r + rangeMin (proxy w)) \<noteq> None"
    unfolding allocatePort_fst by (blast dest: scanPorts_Inl)
  with p assms(5) show ?thesis by simp
qed

lemma stubEnv_perm_contract: "perm_contract (stubEnv c u)"
  by (simp add: perm_contract_def stubEnv_def)

text \<open>
  Claim C2. The claim says that over a range with \<open>rangeMin \<le> rangeMax\<close> the allocator
  fails exactly when every port of the range is a key of \<open>allocatedPorts\<close>. Over the full
  range 0 to 65535 the size \<open>rangeMax - rangeMin + 1\<close> wraps to 0 in \<open>uint16\<close>, the
  permutation is empty, and \<open>allocatePort\<close> fails whatever \<open>allocatedPorts\<close> holds, also
  when no port is reserved. (Over every other range with \<open>rangeMin \<le> rangeMax\<close> the claim
  holds: \<open>allocatePort_Inr\<close>, \<open>allocatePort_exhausted\<close>, \<open>allocatePort_free\<close>.)
\<close>
theorem allocatePort_full_range_fails:
  assumes "perm_contract env" and "rangeMin (proxy w) = 0" and "rangeMax (proxy w) = 65535"
  shows "fst (allocatePort env w) = Inl NoAvailableProxyPorts"
proof -
  have "unat (rangeMax (proxy w) - rangeMin (proxy w) + 1) = 0"
    using assms(2,3) by simp
  moreover have "set (fst (rand_Perm env 0 (ext w))) = {0..<0}"
    using assms(1) unfolding perm_contract_def by blast
  then have "fst (rand_Perm env 0 (ext w)) = []" by simp
  ultimately show ?thesis by (simp add: allocatePort_fst)
qed

text \<open>The full range with no port reserved, in the concrete environment.\<close>
theorem allocatePort_full_range_fails_witness:
  "fst (allocatePort (stubEnv True True) (StartProxySupport 0 65535 ''/var/run/cilium'' 0 1000))
     = Inl NoAvailableProxyPorts \<and>
   allocatedPorts (proxy (StartProxySupport 0 65535 ''/var/run/cilium'' (0::nat) 1000)) = Map.empty"
  using allocatePort_full_range_fails
    [of "stubEnv True True" "StartProxySupport 0 65535 ''/var/run/cilium'' 0 1000"]
  by (simp add: stubEnv_perm_contract StartProxySupport_def)

subsection \<open>Evaluating the examples\<close>

lemmas create_eval =
  CreateOrUpdateRedirect_def gcOnce_Do_def newRedirect_def updateRules_def
  retryCreatePort.simps createAttempt_def allocatePort_def createImplementation_def
  ParserTypeHTTP_def ParserTypeKafka_def redirectCreationAttempts_def
  StartProxySupport_def stubEnv_def Let_def upt_conv_Cons

subsection \<open>The example states\<close>

lemma world3_ep1_eq:
  "world3_ep1 =
     \<lparr> proxy = \<lparr> stateDir = ''/var/run/cilium'', rangeMin = 10000, rangeMax = 10002,
                 allocatedPorts = [10000 \<mapsto> 0], redirects = [''ep1-egress'' \<mapsto> 0] \<rparr>,
       heap = [0 \<mapsto> redirect_ep1], nextRef = 1, gcOnce = True, ext = 2,
       trace = [EvOnceInit 1, EvPerm 3, EvCreateEnvoyRedirect 0 10000 None],
       now = 1000, tasks = [] \<rparr>"
  by (simp add: world3_ep1_def world3_def httpFilter_def src0_def redirect_ep1_def create_eval)

lemma world1_ep1_eq:
  "world1_ep1 =
     \<lparr> proxy = \<lparr> stateDir = ''/var/run/cilium'', rangeMin = 10000, rangeMax = 10000,
                 allocatedPorts = [10000 \<mapsto> 0], redirects = [''ep1-egress'' \<mapsto> 0] \<rparr>,
       heap = [0 \<mapsto> redirect_ep1], nextRef = 1, gcOnce = True, ext = 2,
       trace = [EvOnceInit 1, EvPerm 1, EvCreateEnvoyRedirect 0 10000 None],
       now = 1000, tasks = [] \<rparr>"
  by (simp add: world1_ep1_def world1_def httpFilter_def src0_def redirect_ep1_def create_eval)

subsection \<open>The update path\<close>

lemma gcOnce_Do_fields [simp]:
  "proxy (gcOnce_Do nf w) = proxy w" "heap (gcOnce_Do nf w) = heap w"
  "nextRef (gcOnce_Do nf w) = nextRef w" "ext (gcOnce_Do nf w) = ext w"
  "now (gcOnce_Do nf w) = now w" "tasks (gcOnce_Do nf w) = tasks w"
  by (simp_all add: gcOnce_Do_def)

lemma CreateOrUpdateRedirect_present:
  "redirects (proxy w) ident = Some r \<Longrightarrow>
     CreateOrUpdateRedirect env l4 ident src nf w = updateRedirect env l4 r (gcOnce_Do nf w)"
  by (simp add: CreateOrUpdateRedirect_def Let_def)

text \<open>
  Claim C4. When the identifier is present and the filter's parser type differs from the
  redirect's, \<open>CreateOrUpdateRedirect\<close> returns the "invalid type" error and changes
  neither the store of redirects (so not the rule set, proxy port, parser type or
  timestamps of any redirect) nor the manager (both index maps), the waiting goroutines
  or the external state.
\<close>
theorem parser_mismatch_changes_nothing:
  assumes "redirects (proxy w) ident = Some r" and "heap w r = Some rd"
    and "parserType rd \<noteq> L7Parser l4"
  shows "fst (CreateOrUpdateRedirect env l4 ident src nf w)
           = Inl (InvalidType (L7Parser l4) (parserType rd)) \<and>
         heap (snd (CreateOrUpdateRedirect env l4 ident src nf w)) = heap w \<and>
         proxy (snd (CreateOrUpdateRedirect env l4 ident src nf w)) = proxy w \<and>
         tasks (snd (CreateOrUpdateRedirect env l4 ident src nf w)) = tasks w \<and>
         ext (snd (CreateOrUpdateRedirect env l4 ident src nf w)) = ext w"
  using assms by (simp add: CreateOrUpdateRedirect_present updateRedirect_def)

text \<open>\<open>ep1-egress\<close> was created for HTTP; an update for Kafka is refused.\<close>
theorem parser_mismatch_changes_nothing_witness:
  "fst (CreateOrUpdateRedirect (stubEnv True True) kafkaFilter ''ep1-egress'' src0 1 world3_ep1)
     = Inl (InvalidType ''kafka'' ''http'') \<and>
   heap (snd (CreateOrUpdateRedirect (stubEnv True True) kafkaFilter ''ep1-egress'' src0 1 world3_ep1))
     = [0 \<mapsto> redirect_ep1] \<and>
   proxy (snd (CreateOrUpdateRedirect (stubEnv True True) kafkaFilter ''ep1-egress'' src0 1 world3_ep1))
     = proxy world3_ep1"
  using parser_mismatch_changes_nothing
    [where w = world3_ep1 and ident = "''ep1-egress''" and r = 0 and rd = redirect_ep1
       and ?l4.0 = kafkaFilter and env = "stubEnv True True" and src = src0 and nf = 1]
  by (simp add: world3_ep1_eq redirect_ep1_def kafkaFilter_def ParserTypeKafka_def)

text \<open>
  Claim C6. When the identifier is present with the filter's parser type and the call
  succeeds, it returns the existing redirect, and the store differs from the old one only
  at that redirect, whose rule set is the filter's and whose \<open>lastUpdated\<close> is the
  current time; its \<open>ProxyPort\<close> and \<open>created\<close> are as before, and so are both index
  maps.
\<close>
theorem update_success_replaces_rules_only:
  assumes "redirects (proxy w) ident = Some r" and "heap w r = Some rd"
    and "parserType rd = L7Parser l4"
    and "CreateOrUpdateRedirect env l4 ident src nf w = (Inr x, w')"
  shows "x = r \<and>
         heap w' = (heap w)(r \<mapsto> rd\<lparr>rules := L7RulesPerEp l4, lastUpdated := now w\<rparr>) \<and>
         ProxyPort (rd\<lparr>rules := L7RulesPerEp l4, lastUpdated := now w\<rparr>) = ProxyPort rd \<and>
         created (rd\<lparr>rules := L7RulesPerEp l4, lastUpdated := now w\<rparr>) = created rd \<and>
         proxy w' = proxy w \<and> tasks w' = tasks w \<and> now w' = now w"
  using assms
  by (auto simp: CreateOrUpdateRedirect_present updateRedirect_def updateRules_def Let_def
           split: option.splits prod.splits)

text \<open>An update of \<open>ep1-egress\<close> at time 2000 with a new rule set.\<close>
theorem update_success_replaces_rules_only_witness:
  "CreateOrUpdateRedirect (stubEnv True True) httpFilter2 ''ep1-egress'' src0 1
     (world3_ep1\<lparr>now := 2000\<rparr>)
     = (Inr 0, snd (CreateOrUpdateRedirect (stubEnv True True) httpFilter2 ''ep1-egress'' src0 1
                     (world3_ep1\<lparr>now := 2000\<rparr>))) \<and>
   heap (snd (CreateOrUpdateRedirect (stubEnv True True) httpFilter2 ''ep1-egress'' src0 1
                (world3_ep1\<lparr>now := 2000\<rparr>)))
     = [0 \<mapsto> redirect_ep1\<lparr>rules := [(''any'', ''GET /private'')], lastUpdated := 2000\<rparr>]"
proof -
  let ?w = "world3_ep1\<lparr>now := 2000\<rparr>"
  let ?res = "CreateOrUpdateRedirect (stubEnv True True) httpFilter2 ''ep1-egress'' src0 1 ?w"
  have call: "?res = (Inr 0, snd ?res)"
    by (simp add: world3_ep1_eq redirect_ep1_def httpFilter2_def ParserTypeHTTP_def
          CreateOrUpdateRedirect_present updateRedirect_def updateRules_def stubEnv_def Let_def)
  have "heap (snd ?res) =
          (heap ?w)(0 \<mapsto> redirect_ep1\<lparr>rules := L7RulesPerEp httpFilter2, lastUpdated := now ?w\<rparr>)"
    using update_success_replaces_rules_only
      [where w = ?w and ident = "''ep1-egress''" and r = 0 and rd = redirect_ep1
         and ?l4.0 = httpFilter2 and env = "stubEnv True True" and src = src0 and nf = 1
         and x = 0 and w' = "snd ?res"] call
    by (simp add: world3_ep1_eq redirect_ep1_def httpFilter2_def ParserTypeHTTP_def)
  then show ?thesis using call
    by (simp add: world3_ep1_eq httpFilter2_def)
qed

text \<open>
  Claim C10. When the identifier is present with the filter's parser type and the
  backend's \<open>UpdateRules\<close> returns an error, the call returns that error; the redirect's
  rule set has been replaced by the filter's all the same, its \<open>lastUpdated\<close> is not
  refreshed, and the manager is unchanged: the redirect is still indexed under its
  identifier and both maps are as before.
\<close>
theorem update_failure_keeps_new_rules:
  assumes "redirects (proxy w) ident = Some r" and "heap w r = Some rd"
    and "parserType rd = L7Parser l4" and "implementation rd = Some im"
    and "fst (impl_UpdateRules env im (rd\<lparr>rules := L7RulesPerEp l4\<rparr>) (ext w)) = Some err"
  shows "fst (CreateOrUpdateRedirect env l4 ident src nf w) = Inl err \<and>
         heap (snd (CreateOrUpdateRedirect env l4 ident src nf w))
           = (heap w)(r \<mapsto> rd\<lparr>rules := L7RulesPerEp l4\<rparr>) \<and>
         lastUpdated (rd\<lparr>rules := L7RulesPerEp l4\<rparr>) = lastUpdated rd \<and>
         proxy (snd (CreateOrUpdateRedirect env l4 ident src nf w)) = proxy w \<and>
         redirects (proxy (snd (CreateOrUpdateRedirect env l4 ident src nf w))) ident = Some r \<and>
         tasks (snd (CreateOrUpdateRedirect env l4 ident src nf w)) = tasks w"
  using assms
  by (auto simp: CreateOrUpdateRedirect_present updateRedirect_def updateRules_def Let_def
           split: option.splits prod.splits)

text \<open>The same update with a backend that rejects the rules.\<close>
theorem update_failure_keeps_new_rules_witness:
  "fst (CreateOrUpdateRedirect (stubEnv True False) httpFilter2 ''ep1-egress'' src0 1
          (world3_ep1\<lparr>now := 2000\<rparr>)) = Inl (BackendError ''rejected'') \<and>
   heap (snd (CreateOrUpdateRedirect (stubEnv True False) httpFilter2 ''ep1-egress'' src0 1
          (world3_ep1\<lparr>now := 2000\<rparr>)))
     = [0 \<mapsto> redirect_ep1\<lparr>rules := [(''any'', ''GET /private'')]\<rparr>] \<and>
   allocatedPorts (proxy (snd (CreateOrUpdateRedirect (stubEnv True False) httpFilter2
          ''ep1-egress'' src0 1 (world3_ep1\<lparr>now := 2000\<rparr>)))) 10000 = Some 0"
  using update_failure_keeps_new_rules
    [where w = "world3_ep1\<lparr>now := 2000\<rparr>" and ident = "''ep1-egress''" and r = 0
       and rd = redirect_ep1 and ?l4.0 = httpFilter2 and env = "stubEnv True False"
       and src = src0 and nf = 1 and im = 1 and err = "BackendError ''rejected''"]
  by (simp add: world3_ep1_eq redirect_ep1_def httpFilter2_def ParserTypeHTTP_def stubEnv_def)

subsection \<open>The create path\<close>

lemma frame_of_refl: "frame_of redir w w"
  by (simp add: frame_of_def)

lemma frame_of_trans: "frame_of redir w w1 \<Longrightarrow> frame_of redir w1 w2 \<Longrightarrow> frame_of redir w w2"
  by (simp add: frame_of_def)

lemma createdPorts_append [simp]: "createdPorts (xs @ ys) = createdPorts xs @ createdPorts ys"
  by (simp add: createdPorts_def List.map_filter_def)

lemma createdPorts_simps [simp]:
  "createdPorts [] = []"
  "createdPorts (ev # tr) = (case createdPort ev of None \<Rightarrow> [] | Some p \<Rightarrow> [p]) @ createdPorts tr"
  by (simp_all add: createdPorts_def List.map_filter_def split: option.splits)

lemma allocations_append [simp]: "allocations (xs @ ys) = allocations xs + allocations ys"
  by (simp add: allocations_def)

lemma allocations_simps [simp]:
  "allocations [] = 0"
  "allocations (ev # tr) = (if isPerm ev then 1 else 0) + allocations tr"
  by (simp_all add: allocations_def)

lemma allocatePort_frame:
  "proxy (snd (allocatePort env w)) = proxy w"
  "heap (snd (allocatePort env w)) = heap w"
  "frame_of redir w (snd (allocatePort env w))"
  "createdPorts (trace (snd (allocatePort env w))) = createdPorts (trace w)"
  "allocations (trace (snd (allocatePort env w))) = Suc (allocations (trace w))"
  "\<exists>n. trace (snd (allocatePort env w)) = trace w @ [EvPerm n]"
  by (simp_all add: allocatePort_snd frame_of_def)

lemma createImplementation_None:
  "createImplementation env l4 redir rd w = None \<longleftrightarrow>
     L7Parser l4 \<noteq> ParserTypeKafka \<and> L7Parser l4 \<noteq> ParserTypeHTTP"
  by (simp add: createImplementation_def split: prod.splits)

lemma createImplementation_Some:
  assumes "createImplementation env l4 redir rd w = Some (err, w')"
  shows "proxy w' = proxy w \<and> nextRef w' = nextRef w \<and> tasks w' = tasks w \<and> now w' = now w \<and>
         (\<exists>im. heap w' = (heap w)(redir \<mapsto> rd\<lparr>implementation := im\<rparr>)) \<and>
         (\<exists>ev. trace w' = trace w @ [ev] \<and> createdPort ev = Some (ProxyPort rd) \<and>
               createError ev = err \<and> \<not> isPerm ev)"
  using assms by (auto simp: createImplementation_def split: if_splits prod.splits)

lemma createImplementation_fails:
  assumes "create_always_fails env"
    and "L7Parser l4 = ParserTypeHTTP \<or> L7Parser l4 = ParserTypeKafka"
  shows "\<exists>err w'. createImplementation env l4 redir rd w = Some (Some err, w')"
proof -
  from assms(1) have
    k: "snd (fst (createKafkaRedirect env rd (ext w))) \<noteq> None" and
    h: "snd (fst (createEnvoyRedirect env rd (stateDir (proxy w)) (ext w))) \<noteq> None"
    unfolding create_always_fails_def by blast+
  show ?thesis
  proof (cases "L7Parser l4 = ParserTypeKafka")
    case True
    with k show ?thesis by (auto simp: createImplementation_def split: prod.splits)
  next
    case False
    with assms(2) h show ?thesis by (auto simp: createImplementation_def split: prod.splits)
  qed
qed

text \<open>The three ways an iteration of the loop can end.\<close>

lemma createAttempt_unfold:
  "createAttempt env l4 ident redir w =
     (case fst (allocatePort env w) of
        Inl err \<Rightarrow> Returned (Inl err, snd (allocatePort env w))
      | Inr to \<Rightarrow>
          (case heap w redir of
             None \<Rightarrow> Returned (Inl NilDereference, snd (allocatePort env w))
           | Some rd0 \<Rightarrow>
               (case createImplementation env l4 redir (rd0\<lparr>ProxyPort := to\<rparr>)
                       ((snd (allocatePort env w))
                          \<lparr>heap := (heap w)(redir \<mapsto> rd0\<lparr>ProxyPort := to\<rparr>)\<rparr>) of
                  None \<Rightarrow>
                    Returned (Inl (UnsupportedL7Parser (L7Parser l4)),
                      (snd (allocatePort env w))
                        \<lparr>heap := (heap w)(redir \<mapsto> rd0\<lparr>ProxyPort := to\<rparr>)\<rparr>)
                | Some (None, w3) \<Rightarrow>
                    Returned (Inr redir,
                      w3\<lparr>proxy := (proxy w3)
                           \<lparr>allocatedPorts := (allocatedPorts (proxy w3))(to \<mapsto> redir),
                            redirects := (redirects (proxy w3))(ident \<mapsto> redir)\<rparr>\<rparr>)
                | Some (Some err, w3) \<Rightarrow> Failed err w3)))"
proof (cases "allocatePort env w")
  case (Pair res w1)
  then have "heap w1 = heap w" using allocatePort_frame(2) [of env w] by simp
  with Pair show ?thesis
    by (simp add: createAttempt_def Let_def split: sum.splits option.splits)
qed

lemma createAttempt_Returned_Inl:
  assumes "createAttempt env l4 ident redir w = Returned (Inl e, w')"
  shows "proxy w' = proxy w \<and> frame_of redir w w' \<and>
         createdPorts (trace w') = createdPorts (trace w) \<and>
         allocations (trace w') = Suc (allocations (trace w)) \<and>
         (e = NoAvailableProxyPorts \<and> fst (allocatePort env w) = Inl NoAvailableProxyPorts \<or>
          e = NilDereference \<and> heap w redir = None \<or>
          e = UnsupportedL7Parser (L7Parser l4) \<and> (\<exists>to. fst (allocatePort env w) = Inr to))"
proof (cases "fst (allocatePort env w)")
  case (Inl err)
  with assms have "e = err" "w' = snd (allocatePort env w)"
    by (simp_all add: createAttempt_unfold)
  with Inl show ?thesis
    using allocatePort_Inl [of env w err] by (simp add: allocatePort_frame)
next
  case (Inr to)
  show ?thesis
  proof (cases "heap w redir")
    case None
    with Inr assms have "e = NilDereference" "w' = snd (allocatePort env w)"
      by (simp_all add: createAttempt_unfold)
    with None show ?thesis by (simp add: allocatePort_frame)
  next
    case (Some rd0)
    let ?w2 = "(snd (allocatePort env w))\<lparr>heap := (heap w)(redir \<mapsto> rd0\<lparr>ProxyPort := to\<rparr>)\<rparr>"
    from Inr Some assms
    have "e = UnsupportedL7Parser (L7Parser l4)" and "w' = ?w2"
      by (auto simp: createAttempt_unfold split: option.splits)
    with Inr Some show ?thesis
      by (simp add: allocatePort_snd frame_of_def)
  qed
qed

lemma createAttempt_Failed:
  assumes "createAttempt env l4 ident redir w = Failed err w'"
  shows "proxy w' = proxy w \<and> frame_of redir w w' \<and> heap w' redir \<noteq> None \<and>
         allocations (trace w') = Suc (allocations (trace w)) \<and>
         (\<exists>to. fst (allocatePort env w) = Inr to \<and>
            createdPorts (trace w') = createdPorts (trace w) @ [to] \<and>
            trace w' \<noteq> [] \<and> createError (last (trace w')) = Some err)"
proof -
  from assms obtain to where Inr: "fst (allocatePort env w) = Inr to"
    by (cases "fst (allocatePort env w)") (simp_all add: createAttempt_unfold)
  from Inr assms obtain rd0 where Some: "heap w redir = Some rd0"
    by (cases "heap w redir") (simp_all add: createAttempt_unfold)
  let ?rd = "rd0\<lparr>ProxyPort := to\<rparr>"
  let ?w2 = "(snd (allocatePort env w))\<lparr>heap := (heap w)(redir \<mapsto> ?rd)\<rparr>"
  from Inr Some assms
  have ci: "createImplementation env l4 redir ?rd ?w2 = Some (Some err, w')"
    by (auto simp: createAttempt_unfold split: option.splits)
  from createImplementation_Some [OF ci] obtain im ev where
    f: "proxy w' = proxy ?w2" "nextRef w' = nextRef ?w2" "tasks w' = tasks ?w2" "now w' = now ?w2"
    and hp: "heap w' = (heap ?w2)(redir \<mapsto> ?rd\<lparr>implementation := im\<rparr>)"
    and tr: "trace w' = trace ?w2 @ [ev]" and ev: "createdPort ev = Some (ProxyPort ?rd)"
      "createError ev = Some err" "\<not> isPerm ev"
    by blast
  from f hp have "proxy w' = proxy w" "frame_of redir w w'" "heap w' redir \<noteq> None"
    by (simp_all add: allocatePort_snd frame_of_def)
  moreover from tr ev have "allocations (trace w') = Suc (allocations (trace w))"
    "createdPorts (trace w') = createdPorts (trace w) @ [to]" "trace w' \<noteq> []"
    "createError (last (trace w')) = Some err"
    by (simp_all add: allocatePort_snd)
  ultimately show ?thesis using Inr by simp
qed


lemma createAttempt_always_fails:
  assumes "create_always_fails env"
    and "L7Parser l4 = ParserTypeHTTP \<or> L7Parser l4 = ParserTypeKafka"
    and "fst (allocatePort env w) = Inr to" and "heap w redir \<noteq> None"
  shows "\<exists>err w'. createAttempt env l4 ident redir w = Failed err w'"
proof -
  from assms(4) obtain rd0 where rd0: "heap w redir = Some rd0" by blast
  from createImplementation_fails [OF assms(1,2)] obtain err w' where
    "createImplementation env l4 redir (rd0\<lparr>ProxyPort := to\<rparr>)
       ((snd (allocatePort env w))\<lparr>heap := (heap w)(redir \<mapsto> rd0\<lparr>ProxyPort := to\<rparr>)\<rparr>)
     = Some (Some err, w')"
    by blast
  with assms(3) rd0 show ?thesis by (simp add: createAttempt_unfold)
qed

lemma createAttempt_unsupported:
  assumes "L7Parser l4 \<noteq> ParserTypeHTTP" and "L7Parser l4 \<noteq> ParserTypeKafka"
    and "heap w redir \<noteq> None"
  shows "\<exists>e w'. createAttempt env l4 ident redir w = Returned (Inl e, w') \<and>
           (e = NoAvailableProxyPorts \<or> e = UnsupportedL7Parser (L7Parser l4))"
proof (cases "fst (allocatePort env w)")
  case (Inl err)
  then show ?thesis
    using allocatePort_Inl [of env w err] by (simp add: createAttempt_unfold)
next
  case (Inr to)
  from assms(3) obtain rd0 where "heap w redir = Some rd0" by blast
  with Inr assms(1,2) show ?thesis
    by (simp add: createAttempt_unfold createImplementation_None [THEN iffD2])
qed

lemma retry_Returned:
  "createAttempt env l4 ident redir w = Returned res \<Longrightarrow>
     retryCreatePort env l4 ident redir n w = res"
  by (subst retryCreatePort.simps) simp

lemma retry_Failed_last:
  "createAttempt env l4 ident redir w = Failed err w3 \<Longrightarrow> redirectCreationAttempts \<le> n \<Longrightarrow>
     retryCreatePort env l4 ident redir n w = (Inl err, w3)"
  by (subst retryCreatePort.simps) simp

lemma retry_Failed_again:
  "createAttempt env l4 ident redir w = Failed err w3 \<Longrightarrow> n < redirectCreationAttempts \<Longrightarrow>
     retryCreatePort env l4 ident redir n w = retryCreatePort env l4 ident redir (Suc n) w3"
  by (subst retryCreatePort.simps) simp

lemma createStart_fields [simp]:
  "proxy (createStart l4 ident src w) = proxy w"
  "trace (createStart l4 ident src w) = trace w"
  "tasks (createStart l4 ident src w) = tasks w"
  "ext (createStart l4 ident src w) = ext w"
  "nextRef (createStart l4 ident src w) = Suc (nextRef w)"
  "heap (createStart l4 ident src w) (nextRef w) \<noteq> None"
  "r \<noteq> nextRef w \<Longrightarrow> heap (createStart l4 ident src w) r = heap w r"
  by (simp_all add: createStart_def)

lemma CreateOrUpdateRedirect_absent:
  "redirects (proxy w) ident = None \<Longrightarrow>
     CreateOrUpdateRedirect env l4 ident src nf w =
       retryCreatePort env l4 ident (nextRef w) 0 (createStart l4 ident src (gcOnce_Do nf w))"
  by (simp add: CreateOrUpdateRedirect_def createStart_def Let_def)

lemma gcOnce_Do_trace [simp]:
  "createdPorts (trace (gcOnce_Do nf w)) = createdPorts (trace w)"
  "allocations (trace (gcOnce_Do nf w)) = allocations (trace w)"
  by (simp_all add: gcOnce_Do_def)

text \<open>
  Claim C7. On the create path, over a range whose ports are all reserved, the call
  returns the allocator's error from the first iteration of the loop: one call of
  \<open>allocatePort\<close>, no backend-construction attempt, and both index maps unchanged.
\<close>
theorem exhausted_range_returns_at_once:
  assumes "perm_contract env" and "redirects (proxy w) ident = None"
    and "rangeMin (proxy w) \<le> rangeMax (proxy w)"
    and "\<forall>p. rangeMin (proxy w) \<le> p \<and> p \<le> rangeMax (proxy w)
            \<longrightarrow> allocatedPorts (proxy w) p \<noteq> None"
    and "CreateOrUpdateRedirect env l4 ident src nf w = (res, w')"
  shows "res = Inl NoAvailableProxyPorts \<and>
         redirects (proxy w') = redirects (proxy w) \<and>
         allocatedPorts (proxy w') = allocatedPorts (proxy w) \<and>
         createAttempts (trace w') = createAttempts (trace w) \<and>
         allocations (trace w') = Suc (allocations (trace w))"
proof -
  let ?w1 = "createStart l4 ident src (gcOnce_Do nf w)"
  have "fst (allocatePort env ?w1) = Inl NoAvailableProxyPorts"
    using assms(1,3,4) by (intro allocatePort_exhausted) simp_all
  then have "createAttempt env l4 ident (nextRef w) ?w1
               = Returned (Inl NoAvailableProxyPorts, snd (allocatePort env ?w1))"
    by (simp add: createAttempt_unfold)
  then have "retryCreatePort env l4 ident (nextRef w) 0 ?w1
               = (Inl NoAvailableProxyPorts, snd (allocatePort env ?w1))"
    by (rule retry_Returned)
  with assms(2,5) have "res = Inl NoAvailableProxyPorts" "w' = snd (allocatePort env ?w1)"
    by (simp_all add: CreateOrUpdateRedirect_absent)
  then show ?thesis by (simp add: allocatePort_frame createAttempts_def)
qed

text \<open>The single port 10000 is held by \<open>ep1-egress\<close>; a second identifier is refused.\<close>
theorem exhausted_range_returns_at_once_witness:
  "fst (CreateOrUpdateRedirect (stubEnv True True) httpFilter ''ep2-egress'' src0 1 world1_ep1)
     = Inl NoAvailableProxyPorts \<and>
   redirects (proxy (snd (CreateOrUpdateRedirect (stubEnv True True) httpFilter ''ep2-egress''
     src0 1 world1_ep1))) = [''ep1-egress'' \<mapsto> 0] \<and>
   allocatedPorts (proxy (snd (CreateOrUpdateRedirect (stubEnv True True) httpFilter
     ''ep2-egress'' src0 1 world1_ep1))) = [10000 \<mapsto> 0] \<and>
   createAttempts (trace (snd (CreateOrUpdateRedirect (stubEnv True True) httpFilter
     ''ep2-egress'' src0 1 world1_ep1))) = 1 \<and>
   allocations (trace (snd (CreateOrUpdateRedirect (stubEnv True True) httpFilter
     ''ep2-egress'' src0 1 world1_ep1))) = 2"
proof -
  let ?c = "CreateOrUpdateRedirect (stubEnv True True) httpFilter ''ep2-egress'' src0 1 world1_ep1"
  have full: "\<forall>p. rangeMin (proxy world1_ep1) \<le> p \<and> p \<le> rangeMax (proxy world1_ep1)
                \<longrightarrow> allocatedPorts (proxy world1_ep1) p \<noteq> None"
    by (auto simp: world1_ep1_eq)
  from exhausted_range_returns_at_once
    [where env = "stubEnv True True" and ?l4.0 = httpFilter and w = world1_ep1
       and ident = "''ep2-egress''" and src = src0 and nf = 1
       and res = "fst ?c" and w' = "snd ?c", OF stubEnv_perm_contract _ _ full]
  show ?thesis
    by (simp add: world1_ep1_eq createAttempts_def)
qed

text \<open>
  Claim C8. For a filter whose parser type is neither HTTP nor Kafka and an identifier
  that is not present, the call fails in the first iteration of the loop (one call of
  \<open>allocatePort\<close>, no backend-construction attempt, no second iteration) and leaves
  both index maps unchanged. The error is "unsupported L7 parser type", or the
  allocator's when no port is free.
\<close>
theorem unsupported_parser_fails_at_once:
  assumes "L7Parser l4 \<noteq> ParserTypeHTTP" and "L7Parser l4 \<noteq> ParserTypeKafka"
    and "redirects (proxy w) ident = None"
    and "CreateOrUpdateRedirect env l4 ident src nf w = (res, w')"
  shows "(res = Inl (UnsupportedL7Parser (L7Parser l4)) \<or> res = Inl NoAvailableProxyPorts) \<and>
         redirects (proxy w') = redirects (proxy w) \<and>
         allocatedPorts (proxy w') = allocatedPorts (proxy w) \<and>
         createAttempts (trace w') = createAttempts (trace w) \<and>
         allocations (trace w') = Suc (allocations (trace w))"
proof -
  let ?w1 = "createStart l4 ident src (gcOnce_Do nf w)"
  have h: "heap ?w1 (nextRef w) \<noteq> None"
    using createStart_fields(6) [of l4 ident src "gcOnce_Do nf w"] by simp
  from createAttempt_unsupported [OF assms(1,2) h, of env ident]
  obtain e w2 where at: "createAttempt env l4 ident (nextRef w) ?w1 = Returned (Inl e, w2)"
    and e: "e = NoAvailableProxyPorts \<or> e = UnsupportedL7Parser (L7Parser l4)"
    by auto
  from at have "retryCreatePort env l4 ident (nextRef w) 0 ?w1 = (Inl e, w2)"
    by (rule retry_Returned)
  with assms(3,4) have r: "res = Inl e" "w' = w2"
    by (simp_all add: CreateOrUpdateRedirect_absent)
  from createAttempt_Returned_Inl [OF at] r e show ?thesis
    by (auto simp: createAttempts_def)
qed

text \<open>A filter for the parser \<open>dns\<close> on a fresh manager.\<close>
theorem unsupported_parser_fails_at_once_witness:
  "fst (CreateOrUpdateRedirect (stubEnv True True) otherFilter ''ep3-egress'' src0 1 world3)
     = Inl (UnsupportedL7Parser ''dns'') \<and>
   redirects (proxy (snd (CreateOrUpdateRedirect (stubEnv True True) otherFilter ''ep3-egress''
     src0 1 world3))) = Map.empty \<and>
   allocatedPorts (proxy (snd (CreateOrUpdateRedirect (stubEnv True True) otherFilter
     ''ep3-egress'' src0 1 world3))) = Map.empty \<and>
   createAttempts (trace (snd (CreateOrUpdateRedirect (stubEnv True True) otherFilter
     ''ep3-egress'' src0 1 world3))) = 0 \<and>
   allocations (trace (snd (CreateOrUpdateRedirect (stubEnv True True) otherFilter
     ''ep3-egress'' src0 1 world3))) = 1"
proof -
  let ?c = "CreateOrUpdateRedirect (stubEnv True True) otherFilter ''ep3-egress'' src0 1 world3"
  have err: "fst ?c = Inl (UnsupportedL7Parser ''dns'')"
    by (simp add: world3_def otherFilter_def src0_def create_eval)
  from unsupported_parser_fails_at_once
    [where env = "stubEnv True True" and ?l4.0 = otherFilter and w = world3
       and ident = "''ep3-egress''" and src = src0 and nf = 1
       and res = "fst ?c" and w' = "snd ?c"]
  have "redirects (proxy (snd ?c)) = redirects (proxy world3) \<and>
        allocatedPorts (proxy (snd ?c)) = allocatedPorts (proxy world3) \<and>
        createAttempts (trace (snd ?c)) = createAttempts (trace world3) \<and>
        allocations (trace (snd ?c)) = Suc (allocations (trace world3))"
    by (simp add: otherFilter_def ParserTypeHTTP_def ParserTypeKafka_def world3_def
          StartProxySupport_def)
  with err show ?thesis
    by (simp add: world3_def StartProxySupport_def createAttempts_def)
qed

lemma retry_always_fails:
  assumes "create_always_fails env"
    and "L7Parser l4 = ParserTypeHTTP \<or> L7Parser l4 = ParserTypeKafka"
    and "\<And>w1. proxy w1 = px \<Longrightarrow>
           \<exists>to. fst (allocatePort env w1) = Inr to \<and> allocatedPorts px to = None"
    and "redirectCreationAttempts - n = k" and "n \<le> redirectCreationAttempts"
    and "proxy w = px" and "heap w redir \<noteq> None"
  shows "\<exists>err w' ps. retryCreatePort env l4 ident redir n w = (Inl err, w') \<and>
           proxy w' = px \<and> frame_of redir w w' \<and>
           createdPorts (trace w') = createdPorts (trace w) @ ps \<and>
           length ps = Suc redirectCreationAttempts - n \<and>
           (\<forall>p\<in>set ps. allocatedPorts px p = None) \<and>
           allocations (trace w') = allocations (trace w) + (Suc redirectCreationAttempts - n) \<and>
           trace w' \<noteq> [] \<and> createError (last (trace w')) = Some err"
  using assms(4-7)
proof (induction k arbitrary: n w)
  case 0
  from assms(3) [OF "0.prems"(3)] obtain to where
    to: "fst (allocatePort env w) = Inr to" "allocatedPorts px to = None" by blast
  from createAttempt_always_fails [OF assms(1,2) to(1) "0.prems"(4)] obtain err w3 where
    at: "createAttempt env l4 ident redir w = Failed err w3" by blast
  from "0.prems" have n: "n = redirectCreationAttempts" by simp
  with at have "retryCreatePort env l4 ident redir n w = (Inl err, w3)"
    by (simp add: retry_Failed_last)
  moreover from createAttempt_Failed [OF at] to "0.prems"(3) n
  have "proxy w3 = px" "frame_of redir w w3"
    "createdPorts (trace w3) = createdPorts (trace w) @ [to]"
    "allocations (trace w3) = allocations (trace w) + (Suc redirectCreationAttempts - n)"
    "trace w3 \<noteq> []" "createError (last (trace w3)) = Some err"
    by simp_all
  ultimately show ?case using to(2) n by (intro exI [of _ err] exI [of _ w3] exI [of _ "[to]"]) simp
next
  case (Suc k)
  from assms(3) [OF Suc.prems(3)] obtain to where
    to: "fst (allocatePort env w) = Inr to" "allocatedPorts px to = None" by blast
  from createAttempt_always_fails [OF assms(1,2) to(1) Suc.prems(4)] obtain err w3 where
    at: "createAttempt env l4 ident redir w = Failed err w3" by blast
  from Suc.prems have n: "n < redirectCreationAttempts" by simp
  with at have step: "retryCreatePort env l4 ident redir n w
                        = retryCreatePort env l4 ident redir (Suc n) w3"
    by (simp add: retry_Failed_again)
  from createAttempt_Failed [OF at] to Suc.prems(3)
  have w3: "proxy w3 = px" "frame_of redir w w3" "heap w3 redir \<noteq> None"
    "createdPorts (trace w3) = createdPorts (trace w) @ [to]"
    "allocations (trace w3) = Suc (allocations (trace w))"
    by simp_all
  from Suc.prems n have "redirectCreationAttempts - Suc n = k" "Suc n \<le> redirectCreationAttempts"
    by simp_all
  from Suc.IH [OF this w3(1,3)] obtain err' w' ps where
    r: "retryCreatePort env l4 ident redir (Suc n) w3 = (Inl err', w')"
    and f: "proxy w' = px" "frame_of redir w3 w'"
    and ps: "createdPorts (trace w') = createdPorts (trace w3) @ ps"
      "length ps = Suc redirectCreationAttempts - Suc n" "\<forall>p\<in>set ps. allocatedPorts px p = None"
    and al: "allocations (trace w') = allocations (trace w3) + (Suc redirectCreationAttempts - Suc n)"
    and l: "trace w' \<noteq> []" "createError (last (trace w')) = Some err'"
    by blast
  have "frame_of redir w w'" using w3(2) f(2) by (rule frame_of_trans)
  moreover have "createdPorts (trace w') = createdPorts (trace w) @ (to # ps)"
    using ps(1) w3(4) by simp
  moreover have "length (to # ps) = Suc redirectCreationAttempts - n" using ps(2) n by simp
  moreover have "\<forall>p\<in>set (to # ps). allocatedPorts px p = None" using ps(3) to(2) by simp
  moreover have "allocations (trace w') = allocations (trace w) + (Suc redirectCreationAttempts - n)"
    using al w3(5) n by simp
  ultimately show ?case using step r f(1) l
    by (intro exI [of _ err'] exI [of _ w'] exI [of _ "to # ps"]) simp
qed

text \<open>
  Claim C1. The claim says that when backend construction fails every time, the create
  path makes exactly \<open>redirectCreationAttempts = 5\<close> attempts. The loop counts \<open>nRetry\<close>
  from 0 and gives up when \<open>nRetry >= redirectCreationAttempts\<close>, after the attempt: it
  makes 6. The rest of the claim holds: the error returned is the last attempt's, the
  identifier is not in \<open>redirects\<close>, and none of the ports tried is in \<open>allocatedPorts\<close>.
\<close>
theorem create_gives_up_after_six_attempts:
  assumes "create_always_fails env" and "perm_contract env"
    and "L7Parser l4 = ParserTypeHTTP \<or> L7Parser l4 = ParserTypeKafka"
    and "redirects (proxy w) ident = None"
    and "rangeMax (proxy w) - rangeMin (proxy w) + 1 \<noteq> 0"
    and "rangeMin (proxy w) \<le> q" and "q \<le> rangeMax (proxy w)"
    and "allocatedPorts (proxy w) q = None"
    and "CreateOrUpdateRedirect env l4 ident src nf w = (res, w')"
  shows "\<exists>err ps. res = Inl err \<and> createError (last (trace w')) = Some err \<and>
           createdPorts (trace w') = createdPorts (trace w) @ ps \<and>
           length ps = 6 \<and> redirectCreationAttempts = 5 \<and>
           createAttempts (trace w') = createAttempts (trace w) + 6 \<and>
           redirects (proxy w') ident = None \<and>
           redirects (proxy w') = redirects (proxy w) \<and>
           allocatedPorts (proxy w') = allocatedPorts (proxy w) \<and>
           (\<forall>p\<in>set ps. allocatedPorts (proxy w') p = None)"
proof -
  let ?w1 = "createStart l4 ident src (gcOnce_Do nf w)"
  have rng: "rangeMin (proxy w) \<le> rangeMax (proxy w)" using assms(6,7) by simp
  have alloc: "\<exists>to. fst (allocatePort env w1) = Inr to \<and> allocatedPorts (proxy w) to = None"
    if "proxy w1 = proxy w" for w1 :: "'a world"
  proof -
    from allocatePort_free [of env w1 q] assms(2,5-8) that
    obtain to where to: "fst (allocatePort env w1) = Inr to" by auto
    from allocatePort_Inr [OF assms(2) _ to] rng that show ?thesis using to by simp
  qed
  have h: "heap ?w1 (nextRef w) \<noteq> None"
    using createStart_fields(6) [of l4 ident src "gcOnce_Do nf w"] by simp
  have "proxy ?w1 = proxy w" by simp
  from retry_always_fails [OF assms(1,3) alloc _ _ this h, of 0 redirectCreationAttempts ident]
  obtain err w2 ps where
    r: "retryCreatePort env l4 ident (nextRef w) 0 ?w1 = (Inl err, w2)"
    and f: "proxy w2 = proxy w"
    and ps: "createdPorts (trace w2) = createdPorts (trace ?w1) @ ps"
      "length ps = Suc redirectCreationAttempts - 0" "\<forall>p\<in>set ps. allocatedPorts (proxy w) p = None"
    and l: "createError (last (trace w2)) = Some err"
    by auto
  from r assms(4,9) have "res = Inl err" "w' = w2"
    by (simp_all add: CreateOrUpdateRedirect_absent)
  with f ps l assms(4) show ?thesis
    by (intro exI [of _ err] exI [of _ ps])
       (simp add: createAttempts_def redirectCreationAttempts_def)
qed

text \<open>Six attempts over the ports 10000 to 10002, with a backend that always fails.\<close>
theorem create_gives_up_after_six_attempts_witness:
  "fst (CreateOrUpdateRedirect (stubEnv False True) httpFilter ''ep1-egress'' src0 1 world3)
     = Inl (BackendError ''hhhhhhhhhhh'') \<and>
   createAttempts (trace (snd (CreateOrUpdateRedirect (stubEnv False True) httpFilter
     ''ep1-egress'' src0 1 world3))) = 6 \<and>
   redirects (proxy (snd (CreateOrUpdateRedirect (stubEnv False True) httpFilter
     ''ep1-egress'' src0 1 world3))) ''ep1-egress'' = None \<and>
   allocatedPorts (proxy (snd (CreateOrUpdateRedirect (stubEnv False True) httpFilter
     ''ep1-egress'' src0 1 world3))) = Map.empty"
proof -
  let ?c = "CreateOrUpdateRedirect (stubEnv False True) httpFilter ''ep1-egress'' src0 1 world3"
  have fails: "create_always_fails (stubEnv False True)"
    by (simp add: create_always_fails_def stubEnv_def)
  have err: "fst ?c = Inl (BackendError ''hhhhhhhhhhh'')"
    by (simp add: world3_def httpFilter_def src0_def create_eval)
  from create_gives_up_after_six_attempts
    [where env = "stubEnv False True" and ?l4.0 = httpFilter and w = world3
       and ident = "''ep1-egress''" and q = 10001 and src = src0 and nf = 1
       and res = "fst ?c" and w' = "snd ?c", OF fails stubEnv_perm_contract]
  have "createAttempts (trace (snd ?c)) = createAttempts (trace world3) + 6 \<and>
        redirects (proxy (snd ?c)) ''ep1-egress'' = None \<and>
        allocatedPorts (proxy (snd ?c)) = allocatedPorts (proxy world3)"
    by (auto simp: world3_def StartProxySupport_def httpFilter_def)
  with err show ?thesis
    by (simp add: world3_def StartProxySupport_def createAttempts_def)
qed

subsection \<open>The invariant\<close>





























subsection \<open>What one call changes\<close>

lemma grows_refl: "grows redir w w"
  by (simp add: grows_def frame_of_refl)










subsection \<open>The port of a removed redirect\<close>


















end
